theory Spec2Isabelle
  imports Main "HOL-Library.Word"
begin

unbundle bit_operations_syntax

section \<open>Python values used by the SDK\<close>

text \<open>
  A Python \<open>str\<close> is a sequence of Unicode code points; \<open>len\<close> counts code points.
  Code points are natural numbers below \<open>0x110000\<close>; the surrogate range
  \<open>0xD800..0xDFFF\<close> is allowed inside a \<open>str\<close> but has no UTF-8 encoding.
\<close>

type_synonym pystr = "nat list"
type_synonym byte = "8 word"

definition py :: "string \<Rightarrow> pystr" where
  "py s = map of_char s"

datatype py_error = UnicodeEncodeError | ValueError


subsection \<open>\<open>str.encode()\<close>: strict UTF-8\<close>

definition encodable_cp :: "nat \<Rightarrow> bool" where
  "encodable_cp c = (c < 0xD800 \<or> (0xDFFF < c \<and> c < 0x110000))"

definition utf8_cp :: "nat \<Rightarrow> byte list" where
  "utf8_cp c =
     (if c < 0x80 then [of_nat c]
      else if c < 0x800 then [of_nat (0xC0 + c div 64), of_nat (0x80 + c mod 64)]
      else if c < 0x10000 then
        [of_nat (0xE0 + c div 4096), of_nat (0x80 + c div 64 mod 64), of_nat (0x80 + c mod 64)]
      else
        [of_nat (0xF0 + c div 262144), of_nat (0x80 + c div 4096 mod 64),
         of_nat (0x80 + c div 64 mod 64), of_nat (0x80 + c mod 64)])"

fun encode :: "pystr \<Rightarrow> py_error + byte list" where
  "encode [] = Inr []"
| "encode (c # cs) =
     (if encodable_cp c then
        (case encode cs of Inl e \<Rightarrow> Inl e | Inr bs \<Rightarrow> Inr (utf8_cp c @ bs))
      else Inl UnicodeEncodeError)"

definition encodable :: "pystr \<Rightarrow> bool" where
  "encodable s = list_all encodable_cp s"

section \<open>\<open>hashlib.sha256\<close>: SHA-256 as in FIPS 180-4\<close>

type_synonym w32 = "32 word"
type_synonym sha_state = "w32 \<times> w32 \<times> w32 \<times> w32 \<times> w32 \<times> w32 \<times> w32 \<times> w32"

definition rotr :: "nat \<Rightarrow> w32 \<Rightarrow> w32" where
  "rotr n x = (drop_bit n x) OR (push_bit (32 - n) x)"

definition ch :: "w32 \<Rightarrow> w32 \<Rightarrow> w32 \<Rightarrow> w32" where
  "ch x y z = (x AND y) XOR (NOT x AND z)"

definition maj :: "w32 \<Rightarrow> w32 \<Rightarrow> w32 \<Rightarrow> w32" where
  "maj x y z = (x AND y) XOR (x AND z) XOR (y AND z)"

definition bsig0 :: "w32 \<Rightarrow> w32" where
  "bsig0 x = rotr 2 x XOR rotr 13 x XOR rotr 22 x"

definition bsig1 :: "w32 \<Rightarrow> w32" where
  "bsig1 x = rotr 6 x XOR rotr 11 x XOR rotr 25 x"

definition ssig0 :: "w32 \<Rightarrow> w32" where
  "ssig0 x = rotr 7 x XOR rotr 18 x XOR drop_bit 3 x"

definition ssig1 :: "w32 \<Rightarrow> w32" where
  "ssig1 x = rotr 17 x XOR rotr 19 x XOR drop_bit 10 x"

text \<open>
  The constants, as the standard defines them: the round constants are the first 32 bits
  of the fractional parts of the cube roots of the first 64 primes, the initial hash
  value those of the square roots of the first 8 primes. \<open>int_root k n\<close> is the integer
  part of the \<open>k\<close>-th root of \<open>n\<close>, found bit by bit from the top.
\<close>

definition is_prime :: "nat \<Rightarrow> bool" where
  "is_prime n = (1 < n \<and> list_all (\<lambda>d. n mod d \<noteq> 0) [2..<n])"

definition first_primes :: "nat list" where
  "first_primes = filter is_prime [2..<312]"

definition int_root :: "nat \<Rightarrow> nat \<Rightarrow> nat" where
  "int_root k n = foldl (\<lambda>r b. if (r + 2 ^ b) ^ k \<le> n then r + 2 ^ b else r) 0 (rev [0..<40])"

definition K256 :: "w32 list" where
  "K256 = map (\<lambda>p. of_nat (int_root 3 (p * 2 ^ 96))) first_primes"

definition sqrt_frac :: "nat \<Rightarrow> w32" where
  "sqrt_frac p = of_nat (int_root 2 (p * 2 ^ 64))"

definition H256 :: sha_state where
  "H256 = (sqrt_frac 2, sqrt_frac 3, sqrt_frac 5, sqrt_frac 7,
           sqrt_frac 11, sqrt_frac 13, sqrt_frac 17, sqrt_frac 19)"

text \<open>The message schedule: sixteen block words extended to sixty-four.\<close>

fun schedule :: "nat \<Rightarrow> w32 list \<Rightarrow> w32 list" where
  "schedule 0 ws = ws"
| "schedule (Suc n) ws =
     schedule n (ws @ [ssig1 (ws ! (length ws - 2)) + ws ! (length ws - 7)
                       + ssig0 (ws ! (length ws - 15)) + ws ! (length ws - 16)])"

fun sha_round :: "sha_state \<Rightarrow> w32 \<times> w32 \<Rightarrow> sha_state" where
  "sha_round (a, b, c, d, e, f, g, h) (k, w) =
     (let t1 = h + bsig1 e + ch e f g + k + w;
          t2 = bsig0 a + maj a b c
      in (t1 + t2, a, b, c, d + t1, e, f, g))"

fun add_state :: "sha_state \<Rightarrow> sha_state \<Rightarrow> sha_state" where
  "add_state (a, b, c, d, e, f, g, h) (a', b', c', d', e', f', g', h') =
     (a + a', b + b', c + c', d + d', e + e', f + f', g + g', h + h')"

definition compress :: "sha_state \<Rightarrow> w32 list \<Rightarrow> sha_state" where
  "compress H blk = add_state H (foldl sha_round H (zip K256 (schedule 48 blk)))"

definition be32 :: "byte list \<Rightarrow> w32" where
  "be32 bs = foldl (\<lambda>acc b. push_bit 8 acc OR ucast b) 0 bs"

definition w32_bytes :: "w32 \<Rightarrow> byte list" where
  "w32_bytes w = [ucast (drop_bit 24 w), ucast (drop_bit 16 w), ucast (drop_bit 8 w), ucast w]"

definition len_bytes :: "nat \<Rightarrow> byte list" where
  "len_bytes n = map (\<lambda>i. of_nat (n div 2 ^ (8 * (7 - i)))) [0..<8]"

definition sha_pad :: "byte list \<Rightarrow> byte list" where
  "sha_pad m = m @ [0x80] @ replicate ((64 - (length m + 9) mod 64) mod 64) 0
                 @ len_bytes (8 * length m mod 2 ^ 64)"

function chunks :: "nat \<Rightarrow> 'a list \<Rightarrow> 'a list list" where
  "chunks n xs = (if n = 0 \<or> xs = [] then [] else take n xs # chunks n (drop n xs))"
  by pat_completeness auto
termination
  by (relation "measure (\<lambda>(n, xs). length xs)") auto

declare chunks.simps [simp del]

definition block_words :: "byte list \<Rightarrow> w32 list" where
  "block_words blk = map be32 (chunks 4 blk)"

fun state_bytes :: "sha_state \<Rightarrow> byte list" where
  "state_bytes (a, b, c, d, e, f, g, h) =
     w32_bytes a @ w32_bytes b @ w32_bytes c @ w32_bytes d
     @ w32_bytes e @ w32_bytes f @ w32_bytes g @ w32_bytes h"

definition sha256 :: "byte list \<Rightarrow> byte list" where
  "sha256 m = state_bytes (foldl compress H256 (map block_words (chunks 64 (sha_pad m))))"

subsection \<open>\<open>hexdigest()\<close> and \<open>bytes.hex()\<close>: two lowercase hex digits per byte\<close>

definition hex_digit :: "nat \<Rightarrow> nat" where
  "hex_digit n = (if n < 10 then 48 + n else 87 + n)"

definition hex_byte :: "byte \<Rightarrow> pystr" where
  "hex_byte b = [hex_digit (unat b div 16), hex_digit (unat b mod 16)]"

definition hexlify :: "byte list \<Rightarrow> pystr" where
  "hexlify bs = concat (map hex_byte bs)"

definition sha256_hexdigest :: "byte list \<Rightarrow> pystr" where
  "sha256_hexdigest m = hexlify (sha256 m)"

section \<open>crypto.py\<close>

text \<open>
  \<open>create_commitment\<close>: the f-string \<open>f"{value}:{salt}"\<close> joins the two strings around a
  colon; \<open>encode()\<close> raises \<open>UnicodeEncodeError\<close> on a lone surrogate.
\<close>

definition create_commitment :: "pystr \<Rightarrow> pystr \<Rightarrow> py_error + pystr" where
  "create_commitment value salt =
     (let combined = value @ py '':'' @ salt
      in case encode combined of
           Inl e \<Rightarrow> Inl e
         | Inr bs \<Rightarrow> Inr (sha256_hexdigest bs))"

definition verify_commitment :: "pystr \<Rightarrow> pystr \<Rightarrow> pystr \<Rightarrow> py_error + bool" where
  "verify_commitment value salt commitment_hash =
     (case create_commitment value salt of
        Inl e \<Rightarrow> Inl e
      | Inr expected_hash \<Rightarrow> Inr (expected_hash = commitment_hash))"

definition verify_vote_commitment :: "pystr \<Rightarrow> pystr \<Rightarrow> pystr \<Rightarrow> py_error + bool" where
  "verify_vote_commitment value salt commitment_hash = verify_commitment value salt commitment_hash"

definition hash_string :: "pystr \<Rightarrow> py_error + pystr" where
  "hash_string input_string =
     (case encode input_string of Inl e \<Rightarrow> Inl e | Inr bs \<Rightarrow> Inr (sha256_hexdigest bs))"


subsection \<open>\<open>int(s, 16)\<close>\<close>

text \<open>
  CPython parses a \<open>str\<close> in two steps. First every code point from 127 upwards is
  mapped to ASCII: Unicode white space becomes a blank, a Unicode decimal digit becomes
  its ASCII digit, and at the first other character a \<open>?\<close> is written and the rest is
  dropped. A string that is ASCII already is left alone. Then the ASCII text is read as
  blanks, an optional sign, an optional \<open>0x\<close> prefix (which one underscore may follow),
  digits that single underscores may separate, and blanks to the end.
\<close>

definition py_unicode_isspace :: "nat \<Rightarrow> bool" where
  "py_unicode_isspace c =
     ((9 \<le> c \<and> c \<le> 13) \<or> (28 \<le> c \<and> c \<le> 32) \<or> c = 0x85 \<or> c = 0xA0 \<or> c = 0x1680
      \<or> (0x2000 \<le> c \<and> c \<le> 0x200A) \<or> c = 0x2028 \<or> c = 0x2029 \<or> c = 0x202F
      \<or> c = 0x205F \<or> c = 0x3000)"

text \<open>The code points of the digit zero of every decimal script (Unicode 14.0).\<close>

definition decimal_zeros :: "nat list" where
  "decimal_zeros =
    [0x30, 0x660, 0x6f0, 0x7c0, 0x966, 0x9e6, 0xa66, 0xae6, 0xb66, 0xbe6, 0xc66, 0xce6, 0xd66,
     0xde6, 0xe50, 0xed0, 0xf20, 0x1040, 0x1090, 0x17e0, 0x1810, 0x1946, 0x19d0, 0x1a80, 0x1a90,
     0x1b50, 0x1bb0, 0x1c40, 0x1c50, 0xa620, 0xa8d0, 0xa900, 0xa9d0, 0xa9f0, 0xaa50, 0xabf0,
     0xff10, 0x104a0, 0x10d30, 0x11066, 0x110f0, 0x11136, 0x111d0, 0x112f0, 0x11450, 0x114d0,
     0x11650, 0x116c0, 0x11730, 0x118e0, 0x11950, 0x11c50, 0x11d50, 0x11da0, 0x16a60, 0x16ac0,
     0x16b50, 0x1d7ce, 0x1d7d8, 0x1d7e2, 0x1d7ec, 0x1d7f6, 0x1e140, 0x1e2f0, 0x1e950, 0x1fbf0]"

definition py_unicode_todecimal :: "nat \<Rightarrow> nat option" where
  "py_unicode_todecimal c =
     (case filter (\<lambda>z. z \<le> c \<and> c < z + 10) decimal_zeros of
        [] \<Rightarrow> None
      | z # _ \<Rightarrow> Some (c - z))"

fun transform_decimal_and_space :: "pystr \<Rightarrow> pystr" where
  "transform_decimal_and_space [] = []"
| "transform_decimal_and_space (c # cs) =
     (if c < 127 then c # transform_decimal_and_space cs
      else if py_unicode_isspace c then 32 # transform_decimal_and_space cs
      else (case py_unicode_todecimal c of
              None \<Rightarrow> [63]
            | Some d \<Rightarrow> (48 + d) # transform_decimal_and_space cs))"

definition to_ascii :: "pystr \<Rightarrow> pystr" where
  "to_ascii s = (if list_all (\<lambda>c. c < 128) s then s else transform_decimal_and_space s)"

definition py_isspace :: "nat \<Rightarrow> bool" where
  "py_isspace c = (c = 32 \<or> (9 \<le> c \<and> c \<le> 13))"

definition digit_value :: "nat \<Rightarrow> nat" where
  "digit_value c =
     (if 48 \<le> c \<and> c \<le> 57 then c - 48
      else if 97 \<le> c \<and> c \<le> 122 then c - 87
      else if 65 \<le> c \<and> c \<le> 90 then c - 55
      else 37)"

fun skip_sign :: "pystr \<Rightarrow> int \<times> pystr" where
  "skip_sign [] = (1, [])"
| "skip_sign (c # cs) =
     (if c = 43 then (1, cs) else if c = 45 then (- 1, cs) else (1, c # cs))"

fun skip_prefix16 :: "pystr \<Rightarrow> pystr" where
  "skip_prefix16 (z # x # cs) =
     (if z = 48 \<and> (x = 120 \<or> x = 88)
      then (case cs of [] \<Rightarrow> [] | u # cs' \<Rightarrow> if u = 95 then cs' else u # cs')
      else z # x # cs)"
| "skip_prefix16 cs = cs"

text \<open>
  The digit scan: \<open>prev\<close> is the character read last (0 at the start), \<open>ds\<close> the digit
  values read so far. Two underscores in a row and an underscore at the end are errors.
\<close>

fun scan_digits :: "nat \<Rightarrow> nat list \<Rightarrow> pystr \<Rightarrow> (nat list \<times> pystr) option" where
  "scan_digits prev ds [] = (if prev = 95 then None else Some (ds, []))"
| "scan_digits prev ds (c # cs) =
     (if c = 95 then (if prev = 95 then None else scan_digits c ds cs)
      else if digit_value c < 16 then scan_digits c (ds @ [digit_value c]) cs
      else (if prev = 95 then None else Some (ds, c # cs)))"

definition py_int16 :: "pystr \<Rightarrow> py_error + int" where
  "py_int16 s =
     (let (sign, str1) = skip_sign (dropWhile py_isspace (to_ascii s));
          str2 = skip_prefix16 str1
      in if (case str2 of [] \<Rightarrow> False | c # _ \<Rightarrow> c = 95) then Inl ValueError
         else (case scan_digits 0 [] str2 of
                 None \<Rightarrow> Inl ValueError
               | Some (ds, rest) \<Rightarrow>
                   if ds = [] then Inl ValueError
                   else if dropWhile py_isspace rest \<noteq> [] then Inl ValueError
                   else Inr (sign * foldl (\<lambda>a d. 16 * a + int d) 0 ds)))"

subsection \<open>The validators\<close>

definition is_valid_hex :: "pystr \<Rightarrow> bool" where
  "is_valid_hex input_string =
     (case py_int16 input_string of Inr _ \<Rightarrow> True | Inl _ \<Rightarrow> False)"

definition is_valid_commitment_hash :: "pystr \<Rightarrow> bool" where
  "is_valid_commitment_hash hash_str = (is_valid_hex hash_str \<and> length hash_str = 64)"

definition is_valid_salt :: "pystr \<Rightarrow> bool" where
  "is_valid_salt salt = (is_valid_hex salt \<and> length salt = 64)"

subsection \<open>Random values\<close>

text \<open>
  \<open>secrets.token_hex(n)\<close> reads \<open>n\<close> bytes from the operating system and renders them
  in hexadecimal; a negative \<open>n\<close> raises \<open>ValueError\<close>. The entropy source is the
  argument \<open>src\<close>: its first \<open>n\<close> values are the bytes read.
\<close>

definition token_hex :: "(nat \<Rightarrow> byte) \<Rightarrow> int \<Rightarrow> py_error + pystr" where
  "token_hex src n = (if n < 0 then Inl ValueError else Inr (hexlify (map src [0..<nat n])))"

definition generate_salt :: "(nat \<Rightarrow> byte) \<Rightarrow> py_error + pystr" where
  "generate_salt src = token_hex src 32"

definition generate_id :: "(nat \<Rightarrow> byte) \<Rightarrow> py_error + pystr" where
  "generate_id src = token_hex src 16"


definition create_vote_commitment ::
  "(nat \<Rightarrow> byte) \<Rightarrow> pystr \<Rightarrow> pystr \<Rightarrow> py_error + (pystr \<times> pystr)" where
  "create_vote_commitment src value voter =
     (case generate_salt src of
        Inl e \<Rightarrow> Inl e
      | Inr salt \<Rightarrow>
          (case create_commitment value salt of
             Inl e \<Rightarrow> Inl e
           | Inr commitment_hash \<Rightarrow> Inr (commitment_hash, salt)))"


section \<open>types.py\<close>

text \<open>
  Decoded JSON and the other Python values the client passes around. A \<open>dict\<close> is an
  association list with distinct keys; \<open>d.get(k, default)\<close> is \<open>dict_get\<close>.
\<close>

datatype pyval =
    PNone
  | PBool bool
  | PInt int
  | PStr pystr
  | PList "pyval list"
  | PDict "(pystr \<times> pyval) list"

fun truthy :: "pyval \<Rightarrow> bool" where
  "truthy PNone = False"
| "truthy (PBool b) = b"
| "truthy (PInt i) = (i \<noteq> 0)"
| "truthy (PStr s) = (s \<noteq> [])"
| "truthy (PList xs) = (xs \<noteq> [])"
| "truthy (PDict kvs) = (kvs \<noteq> [])"


text \<open>
  The two exception classes of the SDK, each with the three attributes its
  constructor stores. \<open>details\<close> and \<open>response\<close> fall back to an empty dict when
  the argument is falsy (\<open>details or {}\<close>).
\<close>

datatype sdk_error =
    VoteError (message: pyval) (code: pyval) (details: pyval)
  | NetworkError (message: pyval) (status: pyval) (response: pyval)

fun sdk_error_class :: "sdk_error \<Rightarrow> string" where
  "sdk_error_class (VoteError _ _ _) = ''VoteError''"
| "sdk_error_class (NetworkError _ _ _) = ''NetworkError''"

definition new_VoteError :: "pyval \<Rightarrow> pyval \<Rightarrow> pyval \<Rightarrow> sdk_error" where
  "new_VoteError msg cd dt = VoteError msg cd (if truthy dt then dt else PDict [])"


record vote_sdk_config =
  base_url :: pystr
  api_key :: "pystr option"
  timeout :: int
  retries :: int
  websocket_url :: "pystr option"

record commit_request =
  voter :: pystr
  commitment_hash :: pystr
  salt :: pystr

record commit_response =
  commitment_id :: pystr
  success :: bool
  response_message :: pystr


section \<open>client.py\<close>

subsection \<open>The collaborators\<close>




datatype log_entry = Info pystr | Error pystr




datatype task = ListenerTask

record ('h, 'ws) vote_client =
  config :: vote_sdk_config
  websocket :: "'ws option"
  event_handlers :: "pystr \<rightharpoonup> 'h list"
  websocket_task :: "task option"

definition init_client :: "vote_sdk_config \<Rightarrow> ('h, 'ws) vote_client" where
  "init_client cfg =
     \<lparr>config = cfg, websocket = None, event_handlers = Map.empty, websocket_task = None\<rparr>"

subsection \<open>Formatting\<close>




subsection \<open>HTTP errors\<close>






subsection \<open>The real-time channel\<close>

text \<open>
  \<open>connect_websocket\<close>. \<open>connect\<close> is \<open>websockets.connect\<close>: a connection, or the text
  of the exception. \<open>not url\<close> holds for \<open>None\<close> and for the empty string.
\<close>

definition connect_websocket ::
  "(pystr \<Rightarrow> pystr + 'ws) \<Rightarrow> ('h, 'ws) vote_client
   \<Rightarrow> (sdk_error + unit) \<times> ('h, 'ws) vote_client \<times> log_entry list" where
  "connect_websocket connect c =
     (case websocket_url (config c) of
        None \<Rightarrow> (Inl (new_VoteError (PStr (py ''WebSocket URL not configured'')) PNone PNone), c, [])
      | Some url \<Rightarrow>
          if url = [] then
            (Inl (new_VoteError (PStr (py ''WebSocket URL not configured'')) PNone PNone), c, [])
          else (case connect url of
                  Inl msg \<Rightarrow>
                    (Inl (new_VoteError (PStr (py ''Failed to connect WebSocket: '' @ msg)) PNone PNone),
                     c, [])
                | Inr ws \<Rightarrow>
                    (Inr (), c\<lparr>websocket := Some ws, websocket_task := Some ListenerTask\<rparr>,
                     [Info (py ''WebSocket connected'')])))"


definition registered :: "('h, 'ws) vote_client \<Rightarrow> pystr \<Rightarrow> 'h list" where
  "registered c event_type = (case event_handlers c event_type of None \<Rightarrow> [] | Some hs \<Rightarrow> hs)"



subsection \<open>Registering and removing listeners\<close>

definition on :: "pystr \<Rightarrow> 'h \<Rightarrow> ('h, 'ws) vote_client \<Rightarrow> ('h, 'ws) vote_client" where
  "on event_type handler c =
     (let hs = (case event_handlers c event_type of None \<Rightarrow> [] | Some hs \<Rightarrow> hs)
      in c\<lparr>event_handlers := (event_handlers c)(event_type \<mapsto> hs @ [handler])\<rparr>)"

text \<open>\<open>list.remove(x)\<close> deletes the first element equal to \<open>x\<close> and raises \<open>ValueError\<close> when there is none.\<close>

fun list_remove :: "'a \<Rightarrow> 'a list \<Rightarrow> py_error + 'a list" where
  "list_remove x [] = Inl ValueError"
| "list_remove x (y # ys) =
     (if y = x then Inr ys
      else (case list_remove x ys of Inl e \<Rightarrow> Inl e | Inr ys' \<Rightarrow> Inr (y # ys')))"

definition off :: "pystr \<Rightarrow> 'h \<Rightarrow> ('h, 'ws) vote_client \<Rightarrow> ('h, 'ws) vote_client" where
  "off event_type handler c =
     (case event_handlers c event_type of
        None \<Rightarrow> c
      | Some hs \<Rightarrow>
          (case list_remove handler hs of
             Inl _ \<Rightarrow> c
           | Inr hs' \<Rightarrow> c\<lparr>event_handlers := (event_handlers c)(event_type \<mapsto> hs')\<rparr>))"


section \<open>Notions of the specification\<close>

text \<open>The UTF-8 bytes of a string that has them.\<close>

definition utf8_bytes :: "pystr \<Rightarrow> byte list" where
  "utf8_bytes s = concat (map utf8_cp s)"

text \<open>The hexadecimal digits \<open>0-9\<close>, \<open>a-f\<close>, \<open>A-F\<close>, and the lowercase ones among them.\<close>

definition is_hex_digit :: "nat \<Rightarrow> bool" where
  "is_hex_digit c = ((48 \<le> c \<and> c \<le> 57) \<or> (97 \<le> c \<and> c \<le> 102) \<or> (65 \<le> c \<and> c \<le> 70))"

definition is_lower_hex_digit :: "nat \<Rightarrow> bool" where
  "is_lower_hex_digit c = ((48 \<le> c \<and> c \<le> 57) \<or> (97 \<le> c \<and> c \<le> 102))"

text \<open>The specification's commitment: the hexadecimal SHA-256 digest of \<open>value + ":" + salt\<close> in UTF-8.\<close>

definition spec_commitment :: "pystr \<Rightarrow> pystr \<Rightarrow> pystr" where
  "spec_commitment v s = hexlify (sha256 (utf8_bytes (v @ [58] @ s)))"

text \<open>The uppercase rendering of an ASCII string.\<close>

definition upper_ascii :: "pystr \<Rightarrow> pystr" where
  "upper_ascii s = map (\<lambda>c. if 97 \<le> c \<and> c \<le> 122 then c - 32 else c) s"


section \<open>Example inputs\<close>

definition example_config :: vote_sdk_config where
  "example_config =
     \<lparr>base_url = py ''https://api.example'', api_key = None, timeout = 30, retries = 3,
      websocket_url = None\<rparr>"

definition example_config_ws :: vote_sdk_config where
  "example_config_ws = example_config\<lparr>websocket_url := Some (py ''wss://api.example/ws'')\<rparr>"

definition example_client :: "(nat, nat) vote_client" where
  "example_client = init_client example_config"

definition example_client_ws :: "(nat, nat) vote_client" where
  "example_client_ws = init_client example_config_ws"

text \<open>A transport that refuses every connection, and an HTTP client that answers every request alike.\<close>

definition connect_refused :: "pystr \<Rightarrow> pystr + nat" where
  "connect_refused url = Inl (py ''connection refused'')"










text \<open>Clients with listeners registered for \<open>results\<close>: 1 then 2, and 1 then 2 twice.\<close>

definition client_12 :: "(nat, nat) vote_client" where
  "client_12 = on (py ''results'') 2 (on (py ''results'') 1 example_client)"

definition client_122 :: "(nat, nat) vote_client" where
  "client_122 = on (py ''results'') 2 client_12"





section \<open>The commitment engine\<close>

lemma py_colon: "py '':'' = [58]"
  by (simp add: py_def)

lemma encode_encodable: "encodable s \<Longrightarrow> encode s = Inr (utf8_bytes s)"
  by (induction s) (simp_all add: encodable_def utf8_bytes_def)

lemma encode_not_encodable: "\<not> encodable s \<Longrightarrow> encode s = Inl UnicodeEncodeError"
proof (induction s)
  case Nil
  then show ?case by (simp add: encodable_def)
next
  case (Cons c cs)
  then show ?case by (cases "encodable_cp c") (simp_all add: encodable_def)
qed

lemma encodable_append: "encodable (a @ b) = (encodable a \<and> encodable b)"
  by (simp add: encodable_def)

lemma encodable_colon: "encodable [58]"
  by (simp add: encodable_def encodable_cp_def)

lemma encodable_combined: "encodable (v @ py '':'' @ s) = (encodable v \<and> encodable s)"
  by (simp add: py_colon encodable_def encodable_cp_def)

lemma create_commitment_encodable:
  assumes "encodable v" and "encodable s"
  shows "create_commitment v s = Inr (spec_commitment v s)"
proof -
  have "encodable (v @ py '':'' @ s)"
    using assms by (simp only: encodable_combined)
  then have "encode (v @ py '':'' @ s) = Inr (utf8_bytes (v @ py '':'' @ s))"
    by (rule encode_encodable)
  then show ?thesis
    by (simp add: create_commitment_def spec_commitment_def sha256_hexdigest_def py_colon)
qed

lemma create_commitment_not_encodable:
  assumes "\<not> (encodable v \<and> encodable s)"
  shows "create_commitment v s = Inl UnicodeEncodeError"
proof -
  have "\<not> encodable (v @ py '':'' @ s)"
    using assms by (simp add: encodable_combined)
  then have "encode (v @ py '':'' @ s) = Inl UnicodeEncodeError"
    by (rule encode_not_encodable)
  then show ?thesis
    by (simp add: create_commitment_def)
qed

lemma length_w32_bytes: "length (w32_bytes w) = 4"
  by (simp add: w32_bytes_def)

lemma length_state_bytes: "length (state_bytes st) = 32"
  by (induction st rule: state_bytes.induct) (simp add: length_w32_bytes)

lemma length_sha256: "length (sha256 m) = 32"
  by (simp add: sha256_def length_state_bytes)

lemma length_hexlify: "length (hexlify bs) = 2 * length bs"
  by (induction bs) (simp_all add: hexlify_def hex_byte_def)

lemma hex_digit_lower: "n < 16 \<Longrightarrow> is_lower_hex_digit (hex_digit n)"
  by (auto simp: hex_digit_def is_lower_hex_digit_def)

lemma unat_byte_div16: "unat (b :: byte) div 16 < 16"
proof -
  have "unat b < 2 ^ LENGTH(8)" by (rule unsigned_less)
  then show ?thesis by simp
qed

lemma hexlify_lower: "list_all is_lower_hex_digit (hexlify bs)"
  by (induction bs) (simp_all add: hexlify_def hex_byte_def hex_digit_lower unat_byte_div16)

lemma length_spec_commitment: "length (spec_commitment v s) = 64"
  by (simp add: spec_commitment_def length_hexlify length_sha256)

lemma hex_digit_facts:
  assumes "is_hex_digit c"
  shows "c < 127" and "c < 128" and "\<not> py_isspace c" and "c \<noteq> 43" and "c \<noteq> 45" and "c \<noteq> 95"
    and "c \<noteq> 120" and "c \<noteq> 88" and "digit_value c < 16"
  using assms by (auto simp: is_hex_digit_def py_isspace_def digit_value_def)

lemma to_ascii_hex: "list_all is_hex_digit s \<Longrightarrow> to_ascii s = s"
proof -
  assume "list_all is_hex_digit s"
  then have "list_all (\<lambda>c. c < 128) s"
    by (induction s) (simp_all add: hex_digit_facts)
  then show ?thesis by (simp add: to_ascii_def)
qed

lemma skip_prefix16_hex:
  assumes "list_all is_hex_digit s"
  shows "skip_prefix16 s = s"
proof (cases s rule: skip_prefix16.cases)
  case (1 z x cs)
  with assms have "is_hex_digit x" by simp
  then have "x \<noteq> 120" "x \<noteq> 88" by (simp_all add: hex_digit_facts)
  with 1 show ?thesis by simp
qed simp_all

lemma scan_digits_hex:
  "list_all is_hex_digit s \<Longrightarrow> prev \<noteq> 95
   \<Longrightarrow> scan_digits prev ds s = Some (ds @ map digit_value s, [])"
proof (induction s arbitrary: prev ds)
  case Nil
  then show ?case by simp
next
  case (Cons c cs)
  then have c: "is_hex_digit c" and cs: "list_all is_hex_digit cs" by simp_all
  from c have "c \<noteq> 95" "digit_value c < 16" by (simp_all add: hex_digit_facts)
  then show ?case using Cons.IH [OF cs, of c] by simp
qed

lemma py_int16_hex:
  assumes "s \<noteq> []" and "list_all is_hex_digit s"
  shows "py_int16 s = Inr (foldl (\<lambda>a d. 16 * a + int d) 0 (map digit_value s))"
proof -
  from assms obtain c cs where s: "s = c # cs" and c: "is_hex_digit c"
    by (cases s) simp_all
  have 1: "dropWhile py_isspace (to_ascii s) = s"
    using c s assms(2) by (simp add: to_ascii_hex hex_digit_facts)
  have 2: "skip_sign s = (1, s)"
    using c s by (simp add: hex_digit_facts)
  have 3: "skip_prefix16 s = s"
    using assms(2) by (rule skip_prefix16_hex)
  have 4: "scan_digits 0 [] s = Some (map digit_value s, [])"
    using scan_digits_hex [OF assms(2), of 0 "[]"] by simp
  have 5: "\<not> (case s of [] \<Rightarrow> False | c # _ \<Rightarrow> c = 95)"
    using c s by (simp add: hex_digit_facts)
  have 6: "map digit_value s \<noteq> []"
    using assms(1) by simp
  show ?thesis
    unfolding py_int16_def 1 2 using 3 4 5 6 by simp
qed

lemma is_valid_hex_hex: "s \<noteq> [] \<Longrightarrow> list_all is_hex_digit s \<Longrightarrow> is_valid_hex s"
  by (simp add: is_valid_hex_def py_int16_hex)


lemma upper_hex: "list_all is_lower_hex_digit s \<Longrightarrow> list_all is_hex_digit (upper_ascii s)"
  by (induction s) (auto simp: is_lower_hex_digit_def is_hex_digit_def upper_ascii_def)


lemma spec_commitment_upper_valid: "is_valid_commitment_hash (upper_ascii (spec_commitment v s))"
proof -
  have len: "length (upper_ascii (spec_commitment v s)) = 64"
    by (simp add: upper_ascii_def length_spec_commitment)
  then have ne: "upper_ascii (spec_commitment v s) \<noteq> []" by auto
  have "list_all is_hex_digit (upper_ascii (spec_commitment v s))"
    by (simp add: spec_commitment_def upper_hex hexlify_lower)
  with ne len show ?thesis by (simp add: is_valid_commitment_hash_def is_valid_hex_hex)
qed

text \<open>
  Claim C1, the counterexample. A Python string may hold a lone surrogate such as
  \<open>U+D800\<close>; \<open>encode()\<close> rejects it, so \<open>create_commitment\<close> raises
  \<open>UnicodeEncodeError\<close> and there is no hash to verify.
\<close>

theorem lone_surrogate_has_no_commitment:
  "create_commitment [0xD800] [] = Inl UnicodeEncodeError
   \<and> verify_commitment [0xD800] [] (replicate 64 48) = Inl UnicodeEncodeError"
proof -
  have "\<not> (encodable [0xD800] \<and> encodable [])"
    by (simp add: encodable_def encodable_cp_def)
  then show ?thesis
    by (simp only: create_commitment_not_encodable verify_commitment_def sum.case simp_thms)
qed

text \<open>
  Claim C1 as amended. For strings \<open>v\<close> and \<open>s\<close> that have a UTF-8 encoding,
  \<open>create_commitment(v, s)\<close> returns a hash \<open>h\<close>, and \<open>verify_commitment(v, s, h)\<close>
  returns \<open>True\<close>.
\<close>

theorem commitment_verifies:
  assumes "encodable v" and "encodable s"
  shows "\<exists>h. create_commitment v s = Inr h \<and> verify_commitment v s h = Inr True"
  using assms by (simp add: verify_commitment_def create_commitment_encodable)

theorem commitment_verifies_witness:
  "encodable (py ''yes'') \<and> encodable (py ''00ff'')
   \<and> (\<exists>h. create_commitment (py ''yes'') (py ''00ff'') = Inr h
          \<and> verify_commitment (py ''yes'') (py ''00ff'') h = Inr True)"
proof -
  have v: "encodable (py ''yes'')" and s: "encodable (py ''00ff'')"
    by (simp_all add: py_def encodable_def encodable_cp_def)
  from commitment_verifies [OF v s] v s show ?thesis by simp
qed

lemma spec_commitment_lower: "list_all is_lower_hex_digit (spec_commitment v s)"
  by (simp add: spec_commitment_def hexlify_lower)

text \<open>
  Claim C2, the counterexample. With a lone surrogate in the salt there are no UTF-8
  bytes to hash: \<open>create_commitment\<close> raises \<open>UnicodeEncodeError\<close>.
\<close>

theorem lone_surrogate_salt_raises:
  "create_commitment (py ''yes'') [0xDFFF] = Inl UnicodeEncodeError"
proof -
  have "\<not> (encodable (py ''yes'') \<and> encodable [0xDFFF])"
    by (simp add: encodable_def encodable_cp_def)
  then show ?thesis by (rule create_commitment_not_encodable)
qed

text \<open>
  Claim C2 as amended. For strings \<open>v\<close> and \<open>s\<close> that have a UTF-8 encoding,
  \<open>create_commitment(v, s)\<close> returns the SHA-256 digest of the UTF-8 bytes of
  \<open>v + ":" + s\<close> in hexadecimal: 64 characters, each a digit or a lowercase letter
  \<open>a-f\<close>. The result is a function of the two arguments alone.
\<close>

theorem create_commitment_is_sha256_hex:
  assumes "encodable v" and "encodable s"
  shows "create_commitment v s = Inr (spec_commitment v s)
         \<and> length (spec_commitment v s) = 64
         \<and> list_all is_lower_hex_digit (spec_commitment v s)"
  using assms
  by (simp add: create_commitment_encodable length_spec_commitment spec_commitment_lower)

theorem create_commitment_is_sha256_hex_witness:
  "encodable (py ''yes'') \<and> encodable (py ''00ff'')
   \<and> create_commitment (py ''yes'') (py ''00ff'') = Inr (spec_commitment (py ''yes'') (py ''00ff''))
   \<and> length (spec_commitment (py ''yes'') (py ''00ff'')) = 64
   \<and> list_all is_lower_hex_digit (spec_commitment (py ''yes'') (py ''00ff''))"
proof -
  have v: "encodable (py ''yes'')" and s: "encodable (py ''00ff'')"
    by (simp_all add: py_def encodable_def encodable_cp_def)
  from create_commitment_is_sha256_hex [OF v s] v s show ?thesis by simp
qed

lemma prefixed_hash_accepted: "is_valid_commitment_hash (py ''0x'' @ replicate 62 97)"
  by code_simp

text \<open>
  Claim C3, evaluated on the code. \<open>is_valid_hex\<close> accepts whatever \<open>int(s, 16)\<close>
  parses: a sign, surrounding blanks, a \<open>0x\<close> prefix and underscores between digits
  are accepted, although none of them is a hexadecimal digit; and a \<open>0x\<close> followed by 62
  hexadecimal digits passes for a commitment hash.
\<close>

theorem is_valid_hex_accepts_non_hex:
  "is_valid_hex (py ''-a'') \<and> \<not> list_all is_hex_digit (py ''-a'')
   \<and> is_valid_hex (py ''0x1f'') \<and> is_valid_hex (py '' a'') \<and> is_valid_hex (py ''1_0'')
   \<and> is_valid_commitment_hash (py ''0x'' @ replicate 62 97)"
proof -
  have "is_valid_hex (py ''-a'') \<and> \<not> list_all is_hex_digit (py ''-a'')
   \<and> is_valid_hex (py ''0x1f'') \<and> is_valid_hex (py '' a'') \<and> is_valid_hex (py ''1_0'')"
    by (simp add: is_valid_hex_def py_int16_def py_def to_ascii_def py_isspace_def digit_value_def
        is_hex_digit_def)
  with prefixed_hash_accepted show ?thesis by blast
qed

lemma verify_commitment_upper:
  "encodable v \<Longrightarrow> encodable s \<Longrightarrow>
   verify_commitment v s (upper_ascii (spec_commitment v s))
     = Inr (spec_commitment v s = upper_ascii (spec_commitment v s))"
  by (simp add: verify_commitment_def create_commitment_encodable)

lemma upper_ascii_fixed:
  "(upper_ascii h = h) = list_all (\<lambda>c. \<not> (97 \<le> c \<and> c \<le> 122)) h"
  by (induction h) (auto simp: upper_ascii_def)






section \<open>The client\<close>

subsection \<open>Connecting\<close>

lemma new_VoteError_plain: "new_VoteError m PNone PNone = VoteError m PNone (PDict [])"
  by (simp add: new_VoteError_def)

text \<open>
  Claim C5, the counterexample. Without a configured endpoint \<open>connect_websocket\<close>
  raises a \<open>VoteError\<close>, not a \<open>ConfigurationError\<close>.
\<close>

theorem connect_unconfigured_raises_VoteError:
  "fst (connect_websocket connect_refused example_client)
     = Inl (VoteError (PStr (py ''WebSocket URL not configured'')) PNone (PDict []))
   \<and> sdk_error_class (VoteError (PStr (py ''WebSocket URL not configured'')) PNone (PDict []))
       \<noteq> ''ConfigurationError''"
  by (simp add: connect_websocket_def example_client_def init_client_def example_config_def
      new_VoteError_plain)

text \<open>
  Claim C5 as amended. When the endpoint is not configured (\<open>None\<close> or the empty
  string), \<open>connect_websocket\<close> raises \<open>VoteError("WebSocket URL not configured")\<close>;
  when it is configured and the connection cannot be established, it raises
  \<open>VoteError("Failed to connect WebSocket: ...")\<close>. In both cases the client is left as it
  was and nothing is logged.
\<close>

theorem connect_websocket_failures:
  "(websocket_url (config c) = None \<or> websocket_url (config c) = Some []
      \<longrightarrow> connect_websocket connect c
          = (Inl (VoteError (PStr (py ''WebSocket URL not configured'')) PNone (PDict [])), c, []))
   \<and> (websocket_url (config c) = Some url \<and> url \<noteq> [] \<and> connect url = Inl msg
      \<longrightarrow> connect_websocket connect c
          = (Inl (VoteError (PStr (py ''Failed to connect WebSocket: '' @ msg)) PNone (PDict [])),
             c, []))"
  by (auto simp: connect_websocket_def new_VoteError_plain)

theorem connect_websocket_failures_witness:
  "connect_websocket connect_refused example_client
     = (Inl (VoteError (PStr (py ''WebSocket URL not configured'')) PNone (PDict [])),
        example_client, [])
   \<and> connect_websocket connect_refused example_client_ws
     = (Inl (VoteError (PStr (py ''Failed to connect WebSocket: '' @ py ''connection refused''))
               PNone (PDict [])),
        example_client_ws, [])"
proof -
  have a: "websocket_url (config example_client) = None"
    by (simp add: example_client_def init_client_def example_config_def)
  have b: "websocket_url (config example_client_ws) = Some (py ''wss://api.example/ws'')"
    by (simp add: example_client_ws_def init_client_def example_config_ws_def)
  have c: "py ''wss://api.example/ws'' \<noteq> []" by (simp add: py_def)
  have d: "connect_refused (py ''wss://api.example/ws'') = Inl (py ''connection refused'')"
    by (simp add: connect_refused_def)
  from connect_websocket_failures [of example_client connect_refused "[]" "[]"]
       connect_websocket_failures [of example_client_ws connect_refused
         "py ''wss://api.example/ws''" "py ''connection refused''"]
       a b c d
  show ?thesis by simp
qed

subsection \<open>HTTP errors\<close>








subsection \<open>The message loop\<close>











lemma registered_client_122: "registered client_122 (py ''results'') = [1, 2, 2]"
  by (simp add: registered_def client_122_def client_12_def on_def example_client_def init_client_def)






lemma list_remove_present:
  "x \<in> set ys \<Longrightarrow> \<exists>xs zs. ys = xs @ x # zs \<and> x \<notin> set xs \<and> list_remove x ys = Inr (xs @ zs)"
proof (induction ys)
  case Nil
  then show ?case by simp
next
  case (Cons y ys)
  show ?case
  proof (cases "y = x")
    case True
    then have "y # ys = [] @ x # ys \<and> x \<notin> set [] \<and> list_remove x (y # ys) = Inr ([] @ ys)"
      by simp
    then show ?thesis by blast
  next
    case False
    with Cons obtain xs zs where "ys = xs @ x # zs" "x \<notin> set xs" "list_remove x ys = Inr (xs @ zs)"
      by auto
    with False have "y # ys = (y # xs) @ x # zs \<and> x \<notin> set (y # xs)
        \<and> list_remove x (y # ys) = Inr ((y # xs) @ zs)"
      by simp
    then show ?thesis by blast
  qed
qed

lemma list_remove_absent: "x \<notin> set ys \<Longrightarrow> list_remove x ys = Inl ValueError"
  by (induction ys) auto

text \<open>
  Claim C9. \<open>off(t, L)\<close> leaves the listeners of every other type as they are. When
  \<open>L\<close> is registered for \<open>t\<close>, exactly its first registration is removed. When it is
  not (or no listener is registered for \<open>t\<close>), the client is unchanged. \<open>off\<close>
  has no failing outcome, and the rest of the client is never touched.
\<close>

theorem off_removes_first_registration:
  "(t' \<noteq> t \<longrightarrow> event_handlers (off t L c) t' = event_handlers c t')
   \<and> (L \<in> set (registered c t) \<longrightarrow>
        (\<exists>xs zs. registered c t = xs @ L # zs \<and> L \<notin> set xs
                  \<and> event_handlers (off t L c) t = Some (xs @ zs)))
   \<and> (L \<notin> set (registered c t) \<longrightarrow> off t L c = c)
   \<and> config (off t L c) = config c
   \<and> websocket (off t L c) = websocket c
   \<and> websocket_task (off t L c) = websocket_task c"
proof (cases "event_handlers c t")
  case None
  then show ?thesis by (simp add: off_def registered_def)
next
  case (Some hs)
  show ?thesis
  proof (cases "L \<in> set hs")
    case True
    from list_remove_present [OF True] obtain xs zs
      where "hs = xs @ L # zs" "L \<notin> set xs" "list_remove L hs = Inr (xs @ zs)" by blast
    with Some True show ?thesis by (simp add: off_def registered_def) blast
  next
    case False
    with Some show ?thesis by (simp add: off_def registered_def list_remove_absent)
  qed
qed

theorem off_removes_first_registration_witness:
  "event_handlers (off (py ''results'') 2 client_122) (py ''results'') = Some [1, 2]
   \<and> off (py ''results'') 3 client_122 = client_122
   \<and> off (py ''reveal'') 2 client_122 = client_122"
proof -
  have r: "registered client_122 (py ''reveal'') = []"
    by (simp add: registered_def client_122_def client_12_def on_def example_client_def
        init_client_def py_def)
  from off_removes_first_registration [of "py ''reveal''" "py ''results''" 2 client_122]
  obtain xs zs where x: "[1, 2, 2] = xs @ 2 # zs" "(2::nat) \<notin> set xs"
    "event_handlers (off (py ''results'') 2 client_122) (py ''results'') = Some (xs @ zs)"
    by (auto simp: registered_client_122)
  from x(1,2) have "xs = [1] \<and> zs = [2]"
    by (cases xs; cases "tl xs") auto
  with x(3) have 1: "event_handlers (off (py ''results'') 2 client_122) (py ''results'') = Some [1, 2]"
    by simp
  from off_removes_first_registration [of "py ''reveal''" "py ''results''" 3 client_122]
  have 2: "off (py ''results'') 3 client_122 = client_122"
    by (simp add: registered_client_122)
  from off_removes_first_registration [of "py ''results''" "py ''reveal''" 2 client_122]
  have 3: "off (py ''reveal'') 2 client_122 = client_122"
    by (simp add: r)
  from 1 2 3 show ?thesis by simp
qed

end
